theory Spec2Isabelle
  imports Complex_Main
begin

section \<open>JavaScript values\<close>

text \<open>
  The payloads the relay receives are whatever \<open>JSON.parse\<close> produced, typed \<open>any\<close> in the
  source, and a missing field reads as \<open>undefined\<close>.  A number is kept as its mathematical
  value together with the special values of a double; the program only ever tests a number for
  truthiness, where \<open>+0\<close>, \<open>-0\<close> (both \<open>Fin 0\<close>) and \<open>NaN\<close> are the falsy ones.
  A string is a list of code units; \<^typ>\<open>char\<close> covers the code units below 256.
  An object is the list of its own properties in insertion order.
\<close>

datatype jsnum = NaN | Inf bool | Fin rat

datatype jsval =
    JUndefined
  | JNull
  | JBool bool
  | JNum jsnum
  | JStr string
  | JArr "jsval list"
  | JObj "(string \<times> jsval) list"

text \<open>
  What the source throws.  \<open>Error msg\<close> is \<open>throw new Error(msg)\<close>, the only error class
  the source constructs itself; \<open>TypeError\<close> is what the runtime raises for a property read on
  \<open>null\<close> or \<open>undefined\<close>; \<open>Rejected\<close> is a rejection coming out of a collaborator
  (the credential library, \<open>fetch\<close>, \<open>response.json()\<close>), with that collaborator's message.
\<close>

datatype error = Error string | TypeError string | Rejected string

fun error_message :: "error \<Rightarrow> string" where
  "error_message (Error m) = m"
| "error_message (TypeError m) = m"
| "error_message (Rejected m) = m"

text \<open>\<open>Boolean(v)\<close>, the test behind \<open>!v\<close>, \<open>if (v)\<close> and \<open>.filter(Boolean)\<close>.\<close>

fun truthy :: "jsval \<Rightarrow> bool" where
  "truthy JUndefined = False"
| "truthy JNull = False"
| "truthy (JBool b) = b"
| "truthy (JNum n) = (case n of NaN \<Rightarrow> False | Inf _ \<Rightarrow> True | Fin q \<Rightarrow> q \<noteq> 0)"
| "truthy (JStr s) = (s \<noteq> [])"
| "truthy (JArr _) = True"
| "truthy (JObj _) = True"

text \<open>\<open>v === null || v === undefined\<close>, the test behind \<open>??\<close> and \<open>?.\<close>.\<close>

fun nullish :: "jsval \<Rightarrow> bool" where
  "nullish JUndefined = True"
| "nullish JNull = True"
| "nullish _ = False"

text \<open>
  The property read \<open>v.k\<close>.  On \<open>null\<close> and \<open>undefined\<close> it raises a TypeError.  On an
  object it is the own property, \<open>undefined\<close> when there is none.  The keys the program reads
  are \<open>text\<close>, \<open>content\<close>, \<open>value\<close>, \<open>id\<close>, \<open>role\<close>, \<open>created_at\<close>, \<open>status\<close> and
  \<open>data\<close>; none of them is defined on the prototype of an object, an array, a string, a
  number or a boolean, so on those the read falls through to \<open>undefined\<close>.
\<close>

fun get_prop :: "jsval \<Rightarrow> string \<Rightarrow> error + jsval" where
  "get_prop JUndefined k =
     Inl (TypeError (''Cannot read properties of undefined (reading '' @ [CHR 0x27] @ k
                     @ [CHR 0x27] @ '')''))"
| "get_prop JNull k =
     Inl (TypeError (''Cannot read properties of null (reading '' @ [CHR 0x27] @ k
                     @ [CHR 0x27] @ '')''))"
| "get_prop (JObj kvs) k = Inr (case map_of kvs k of None \<Rightarrow> JUndefined | Some v \<Rightarrow> v)"
| "get_prop _ k = Inr JUndefined"

text \<open>The optional read \<open>v?.k\<close>: \<open>undefined\<close> on \<open>null\<close> and \<open>undefined\<close>.\<close>

fun get_prop_opt :: "jsval \<Rightarrow> string \<Rightarrow> jsval" where
  "get_prop_opt (JObj kvs) k = (case map_of kvs k of None \<Rightarrow> JUndefined | Some v \<Rightarrow> v)"
| "get_prop_opt _ k = JUndefined"


text \<open>\<open>ss.join(sep)\<close> on an array of strings.\<close>

fun join :: "string \<Rightarrow> string list \<Rightarrow> string" where
  "join sep [] = []"
| "join sep [s] = s"
| "join sep (s # t # ss) = s @ sep @ join sep (t # ss)"

definition NL :: string where
  "NL = [CHR 0x0A]"

text \<open>
  \<open>xs.map(f)\<close> calls \<open>f\<close> on the elements from left to right; the first call that throws
  ends the map with that exception.
\<close>

fun sequence_err :: "(error + 'a) list \<Rightarrow> error + 'a list" where
  "sequence_err [] = Inr []"
| "sequence_err (Inl e # rs) = Inl e"
| "sequence_err (Inr x # rs) =
     (case sequence_err rs of Inl e \<Rightarrow> Inl e | Inr xs \<Rightarrow> Inr (x # xs))"

section \<open>Content normalisation\<close>

text \<open>The callback of \<open>raw.map\<close> in the array branch of \<open>normaliseContent\<close>.\<close>

definition chunkText :: "jsval \<Rightarrow> error + string" where
  "chunkText chunk =
     (if \<not> truthy chunk then Inr ''''
      else (case chunk of JStr s \<Rightarrow> Inr s | _ \<Rightarrow>
       (case get_prop chunk ''text'' of Inl e \<Rightarrow> Inl e | Inr t \<Rightarrow>
        (case t of JStr s \<Rightarrow> Inr s | _ \<Rightarrow>
         (case get_prop chunk ''content'' of Inl e \<Rightarrow> Inl e | Inr c \<Rightarrow>
          (case c of JStr s \<Rightarrow> Inr s | _ \<Rightarrow>
           (case get_prop chunk ''value'' of Inl e \<Rightarrow> Inl e | Inr v \<Rightarrow>
            (case v of JStr s \<Rightarrow> Inr s | _ \<Rightarrow> Inr ''''))))))))"

lemma size_map_of:
  "map_of kvs k = Some v \<Longrightarrow> size v < Suc (size_list (size_prod (\<lambda>_. 0) size) kvs)"
  by (induction kvs) (auto split: if_splits)

lemma size_get_prop:
  "get_prop raw k = Inr (JArr items) \<Longrightarrow> x \<in> set items \<Longrightarrow> size x < size raw"
proof (cases raw)
  case (JObj kvs)
  assume g: "get_prop raw k = Inr (JArr items)" and x: "x \<in> set items"
  from g JObj have "map_of kvs k = Some (JArr items)"
    by (auto split: option.splits)
  from size_map_of [OF this] have "size (JArr items) < Suc (size_list (size_prod (\<lambda>_. 0) size) kvs)" .
  moreover from x have "size x < size (JArr items)"
    by (induction items) auto
  ultimately show ?thesis using JObj by simp
qed auto

lemma size_get_prop_measure:
  "get_prop raw k = Inr t \<Longrightarrow> t = JArr items \<Longrightarrow> x \<in> set items \<Longrightarrow> (x, raw) \<in> measure size"
  using size_get_prop [of raw k items x] by simp

function normaliseContent :: "jsval \<Rightarrow> error + string" where
  "normaliseContent raw =
     (case raw of JStr s \<Rightarrow> Inr s | _ \<Rightarrow>
      (if \<not> truthy raw then Inr ''''
       else (case raw of
         JArr chunks \<Rightarrow>
           (case sequence_err (map chunkText chunks) of
              Inl e \<Rightarrow> Inl e
            | Inr ss \<Rightarrow> Inr (join NL (filter (\<lambda>s. truthy (JStr s)) ss)))
       | _ \<Rightarrow>
           (case get_prop raw ''text'' of
              Inl e \<Rightarrow> Inl e
            | Inr t \<Rightarrow>
               (case t of
                  JStr s \<Rightarrow> Inr s
                | JArr items \<Rightarrow>
                    (case sequence_err (map normaliseContent items) of
                       Inl e \<Rightarrow> Inl e
                     | Inr ss \<Rightarrow> Inr (join NL ss))
                | _ \<Rightarrow> Inr '''')))))"
  by pat_completeness auto
termination
  by (relation "measure size") (simp, (rule size_get_prop_measure; assumption)+)

declare normaliseContent.simps [simp del]


section \<open>The world outside the client\<close>

text \<open>
  The client talks to three collaborators: the credential library, \<open>fetch\<close>, and the clock
  and random source of the runtime.  A world is the wall clock in milliseconds together with
  the log of everything the client has asked of them so far, oldest first.  The collaborators
  are an \<open>env\<close> of functions that answer from the world, so an answer may depend on the time
  and on the whole history; each answer comes with the time the \<open>await\<close> took.  The clock
  never runs backwards and every \<open>await\<close> settles.
\<close>

record azure_config =
  AZURE_AI_FOUNDRY_ENDPOINT :: string
  AZURE_AI_FOUNDRY_PROJECT :: string
  AZURE_AI_FOUNDRY_AGENT_ID :: string
  AZURE_TENANT_ID :: string
  AZURE_CLIENT_ID :: string
  AZURE_CLIENT_SECRET :: string

definition baseUrl :: "azure_config \<Rightarrow> string" where
  "baseUrl config =
     AZURE_AI_FOUNDRY_ENDPOINT config @ ''/api/projects/'' @ AZURE_AI_FOUNDRY_PROJECT config"

datatype http_method = GET | POST

text \<open>
  The path handed to \<open>this.url\<close> at each call site, with the values substituted into the
  template literal kept as they are (the type assertions of the source do not check them).
\<close>

datatype target =
    Threads
  | ThreadMessages jsval
  | ThreadRuns jsval
  | ThreadRun jsval jsval
  | ThreadMessagesAsc jsval

record request =
  req_method :: http_method
  req_base :: string
  req_target :: target
  req_headers :: "(string \<times> string) list"
  req_body :: "jsval option"

text \<open>
  A response: its status, and what \<open>response.text()\<close> and \<open>response.json()\<close> resolve to
  or reject with.
\<close>

record response =
  resp_status :: nat
  resp_text :: "error + string"
  resp_json :: "error + jsval"

definition ok :: "response \<Rightarrow> bool" where
  "ok r = (200 \<le> resp_status r \<and> resp_status r \<le> 299)"

datatype token_reply = TokenRejected string | TokenNull | Token string

datatype fetch_reply = FetchRejected string | FetchResponse response

datatype event =
    GetToken token_reply
  | Fetch request fetch_reply
  | Sleep nat
  | RandomUUID string

record world =
  clock :: nat
  trace :: "event list"

record env =
  on_getToken :: "world \<Rightarrow> nat \<times> token_reply"
  on_fetch :: "world \<Rightarrow> request \<Rightarrow> nat \<times> fetch_reply"
  on_setTimeout :: "world \<Rightarrow> nat \<Rightarrow> nat"
  on_randomUUID :: "world \<Rightarrow> string"
  toISOString :: "nat \<Rightarrow> string"

definition happens :: "nat \<Rightarrow> event \<Rightarrow> world \<Rightarrow> world" where
  "happens dt e w = w\<lparr>clock := clock w + dt, trace := trace w @ [e]\<rparr>"

text \<open>\<open>await fetch(url, init)\<close>.\<close>

definition fetch :: "env \<Rightarrow> request \<Rightarrow> world \<Rightarrow> (error + response) \<times> world" where
  "fetch env req w =
     (case on_fetch env w req of (dt, reply) \<Rightarrow>
       (case reply of
          FetchRejected m \<Rightarrow> (Inl (Rejected m), happens dt (Fetch req reply) w)
        | FetchResponse r \<Rightarrow> (Inr r, happens dt (Fetch req reply) w)))"

text \<open>
  \<open>await new Promise((resolve) => setTimeout(resolve, ms))\<close>.  By how much \<open>Date.now()\<close>
  has moved when the timer fires is the environment's answer: the timer does not run on the
  wall clock, so the gap can be short of \<open>ms\<close> as well as long.  All that is taken for
  granted is that a timer of a millisecond or more moves the clock by one at least.
\<close>

definition sleep :: "env \<Rightarrow> nat \<Rightarrow> world \<Rightarrow> world" where
  "sleep env ms w = happens (max (min ms 1) (on_setTimeout env w ms)) (Sleep ms) w"

definition randomUUID :: "env \<Rightarrow> world \<Rightarrow> jsval \<times> world" where
  "randomUUID env w =
     (case on_randomUUID env w of u \<Rightarrow> (JStr u, happens 0 (RandomUUID u) w))"

text \<open>The decimal digits of a number, as a template literal prints a status code.\<close>

definition digit :: "nat \<Rightarrow> char" where
  "digit d =
     (if d = 0 then CHR ''0'' else if d = 1 then CHR ''1'' else if d = 2 then CHR ''2''
      else if d = 3 then CHR ''3'' else if d = 4 then CHR ''4'' else if d = 5 then CHR ''5''
      else if d = 6 then CHR ''6'' else if d = 7 then CHR ''7'' else if d = 8 then CHR ''8''
      else CHR ''9'')"

fun show_nat :: "nat \<Rightarrow> string" where
  "show_nat n = (if n < 10 then [digit n] else show_nat (n div 10) @ [digit (n mod 10)])"

declare show_nat.simps [simp del]

section \<open>The client\<close>

text \<open>
  What the client throws on a response that is not ok, where it reads the body first: it
  awaits \<open>response.text()\<close> and throws an \<open>Error\<close> whose message is the given words, the
  status in brackets, a colon and the body.  A body that cannot be read rejects the
  \<open>await\<close>, and that rejection is thrown instead.
\<close>

definition failure :: "string \<Rightarrow> response \<Rightarrow> error" where
  "failure what response =
     (case resp_text response of
        Inl e \<Rightarrow> e
      | Inr detail \<Rightarrow>
          Error (what @ '' ('' @ show_nat (resp_status response) @ ''): '' @ detail))"

definition authHeaders :: "env \<Rightarrow> world \<Rightarrow> (error + (string \<times> string) list) \<times> world" where
  "authHeaders env w =
     (case on_getToken env w of (dt, reply) \<Rightarrow>
       (case reply of
          TokenRejected m \<Rightarrow> (Inl (Rejected m), happens dt (GetToken reply) w)
        | TokenNull \<Rightarrow>
            (Inl (Error ''Failed to acquire Azure access token''), happens dt (GetToken reply) w)
        | Token t \<Rightarrow>
            (Inr [(''Authorization'', ''Bearer '' @ t), (''Content-Type'', ''application/json'')],
             happens dt (GetToken reply) w)))"

record FoundryMessage =
  msg_id :: jsval
  msg_role :: jsval
  msg_content :: string
  msg_createdAt :: jsval

definition mapMessage :: "env \<Rightarrow> jsval \<Rightarrow> world \<Rightarrow> (error + FoundryMessage) \<times> world" where
  "mapMessage env message w =
     (case get_prop message ''id'' of Inl e \<Rightarrow> (Inl e, w) | Inr i \<Rightarrow>
      (case (if nullish i then randomUUID env w else (i, w)) of (id', w1) \<Rightarrow>
       (case get_prop message ''role'' of Inl e \<Rightarrow> (Inl e, w1) | Inr r \<Rightarrow>
        (case get_prop message ''content'' of Inl e \<Rightarrow> (Inl e, w1) | Inr c \<Rightarrow>
         (case normaliseContent c of Inl e \<Rightarrow> (Inl e, w1) | Inr content \<Rightarrow>
          (case get_prop message ''created_at'' of Inl e \<Rightarrow> (Inl e, w1) | Inr t \<Rightarrow>
            (Inr \<lparr>msg_id = id',
                  msg_role = (if nullish r then JStr ''assistant'' else r),
                  msg_content = content,
                  msg_createdAt = (if nullish t then JStr (toISOString env (clock w1)) else t)\<rparr>,
             w1)))))))"

text \<open>\<open>data.map((message) => this.mapMessage(message))\<close>.\<close>

fun mapMessages :: "env \<Rightarrow> jsval list \<Rightarrow> world \<Rightarrow> (error + FoundryMessage list) \<times> world" where
  "mapMessages env [] w = (Inr [], w)"
| "mapMessages env (message # rest) w =
     (case mapMessage env message w of
        (Inl e, w1) \<Rightarrow> (Inl e, w1)
      | (Inr m, w1) \<Rightarrow>
          (case mapMessages env rest w1 of
             (Inl e, w2) \<Rightarrow> (Inl e, w2)
           | (Inr ms, w2) \<Rightarrow> (Inr (m # ms), w2)))"

text \<open>The rest of \<open>ensureThread\<close> after its early return: the create-thread call.\<close>

definition createThread :: "env \<Rightarrow> azure_config \<Rightarrow> world \<Rightarrow> (error + jsval) \<times> world" where
  "createThread env config w =
     (case authHeaders env w of (Inl e, w1) \<Rightarrow> (Inl e, w1) | (Inr headers, w1) \<Rightarrow>
      (case fetch env \<lparr>req_method = POST, req_base = baseUrl config, req_target = Threads,
                       req_headers = headers, req_body = None\<rparr> w1 of
         (Inl e, w2) \<Rightarrow> (Inl e, w2)
       | (Inr response, w2) \<Rightarrow>
          (if \<not> ok response then
             (Inl (Error (''Failed to create thread ('' @ show_nat (resp_status response) @ '')'')), w2)
           else
            (case resp_json response of Inl e \<Rightarrow> (Inl e, w2) | Inr body \<Rightarrow>
             (if \<not> truthy (get_prop_opt body ''id'') then
                (Inl (Error ''Thread creation response did not include an id''), w2)
              else (Inr (get_prop_opt body ''id''), w2))))))"

text \<open>
  \<open>threadId?: string\<close> is \<open>None\<close> when the argument is absent; \<open>if (threadId)\<close> also
  fails for the empty string.
\<close>

definition ensureThread ::
  "env \<Rightarrow> azure_config \<Rightarrow> string option \<Rightarrow> world \<Rightarrow> (error + jsval) \<times> world" where
  "ensureThread env config threadId w =
     (case threadId of
        None \<Rightarrow> createThread env config w
      | Some t \<Rightarrow> (if truthy (JStr t) then (Inr (JStr t), w) else createThread env config w))"

definition appendUserMessage ::
  "env \<Rightarrow> azure_config \<Rightarrow> jsval \<Rightarrow> string \<Rightarrow> world \<Rightarrow> (error + unit) \<times> world" where
  "appendUserMessage env config threadId content w =
     (case authHeaders env w of (Inl e, w1) \<Rightarrow> (Inl e, w1) | (Inr headers, w1) \<Rightarrow>
      (case fetch env \<lparr>req_method = POST, req_base = baseUrl config,
                       req_target = ThreadMessages threadId, req_headers = headers,
                       req_body = Some (JObj [(''role'', JStr ''user''), (''content'', JStr content)])\<rparr> w1 of
         (Inl e, w2) \<Rightarrow> (Inl e, w2)
       | (Inr response, w2) \<Rightarrow>
          (if \<not> ok response then
             (Inl (failure ''Failed to append user message'' response), w2)
           else (Inr (), w2))))"

definition startRun ::
  "env \<Rightarrow> azure_config \<Rightarrow> jsval \<Rightarrow> world \<Rightarrow> (error + jsval) \<times> world" where
  "startRun env config threadId w =
     (case authHeaders env w of (Inl e, w1) \<Rightarrow> (Inl e, w1) | (Inr headers, w1) \<Rightarrow>
      (case fetch env \<lparr>req_method = POST, req_base = baseUrl config,
                       req_target = ThreadRuns threadId, req_headers = headers,
                       req_body = Some (JObj [(''assistant_id'',
                                               JStr (AZURE_AI_FOUNDRY_AGENT_ID config))])\<rparr> w1 of
         (Inl e, w2) \<Rightarrow> (Inl e, w2)
       | (Inr response, w2) \<Rightarrow>
          (if \<not> ok response then
             (Inl (failure ''Failed to start run'' response), w2)
           else (case resp_json response of Inl e \<Rightarrow> (Inl e, w2) | Inr run \<Rightarrow> (Inr run, w2)))))"

text \<open>\<open>xs.includes(v)\<close> on an array of strings: only a string can be equal to a member.\<close>

fun includes_js :: "string list \<Rightarrow> jsval \<Rightarrow> bool" where
  "includes_js xs (JStr s) = (s \<in> set xs)"
| "includes_js xs _ = False"

lemma fetch_clock: "fetch env req w = (r, w1) \<Longrightarrow> clock w \<le> clock w1"
  by (auto simp: fetch_def happens_def split: prod.splits fetch_reply.splits)

lemma sleep_clock: "clock w + min ms 1 \<le> clock (sleep env ms w)"
  by (simp add: sleep_def happens_def)

text \<open>
  The \<open>while\<close> loop of \<open>pollRun\<close>.  \<open>Date.now() - start\<close> is the truncating difference of
  the model only when the clock is behind \<open>start\<close>, which a clock that never runs backwards
  excludes.
\<close>

function pollLoop ::
  "env \<Rightarrow> nat \<Rightarrow> nat \<Rightarrow> request \<Rightarrow> world \<Rightarrow> (error + jsval) \<times> world" where
  "pollLoop env start timeoutMs req w =
     (if clock w - start < timeoutMs then
        (case fetch env req w of
           (Inl e, w1) \<Rightarrow> (Inl e, w1)
         | (Inr response, w1) \<Rightarrow>
            (if \<not> ok response then
               (Inl (failure ''Failed to inspect run'' response), w1)
             else
              (case resp_json response of Inl e \<Rightarrow> (Inl e, w1) | Inr run \<Rightarrow>
               (case get_prop run ''status'' of Inl e \<Rightarrow> (Inl e, w1) | Inr status \<Rightarrow>
                (if \<not> truthy status \<or> \<not> includes_js [''queued'', ''in_progress''] status
                 then (Inr run, w1)
                 else pollLoop env start timeoutMs req (sleep env 800 w1))))))
      else (Inl (Error ''Timed out while waiting for the agent response''), w))"
  by pat_completeness auto
termination
proof (relation "measure (\<lambda>(env, start, timeoutMs, req, w). start + timeoutMs - clock w)", goal_cases)
  case 1
  show ?case by simp
next
  case (2 env start timeoutMs req w x w1 response run status)
  from 2(2) have "fetch env req w = (x, w1)" by simp
  then have "clock w \<le> clock w1" by (rule fetch_clock)
  moreover have "clock w1 + 1 \<le> clock (sleep env 800 w1)"
    using sleep_clock [of w1 800 env] by simp
  moreover from 2(1) have "clock w < start + timeoutMs" by simp
  ultimately show ?case by simp
qed

declare pollLoop.simps [simp del]

definition pollRun ::
  "env \<Rightarrow> azure_config \<Rightarrow> jsval \<Rightarrow> jsval \<Rightarrow> nat option \<Rightarrow> world \<Rightarrow> (error + jsval) \<times> world" where
  "pollRun env config threadId runId timeoutMs w =
     (case authHeaders env w of (Inl e, w1) \<Rightarrow> (Inl e, w1) | (Inr headers, w1) \<Rightarrow>
       pollLoop env (clock w) (case timeoutMs of None \<Rightarrow> 120000 | Some t \<Rightarrow> t)
         \<lparr>req_method = GET, req_base = baseUrl config, req_target = ThreadRun threadId runId,
          req_headers = headers, req_body = None\<rparr> w1)"

text \<open>\<open>Array.isArray(payload?.data) ? payload.data : []\<close>.\<close>

definition payload_data :: "jsval \<Rightarrow> jsval list" where
  "payload_data payload = (case get_prop_opt payload ''data'' of JArr data \<Rightarrow> data | _ \<Rightarrow> [])"

definition listMessages ::
  "env \<Rightarrow> azure_config \<Rightarrow> jsval \<Rightarrow> world \<Rightarrow> (error + FoundryMessage list) \<times> world" where
  "listMessages env config threadId w =
     (case authHeaders env w of (Inl e, w1) \<Rightarrow> (Inl e, w1) | (Inr headers, w1) \<Rightarrow>
      (case fetch env \<lparr>req_method = GET, req_base = baseUrl config,
                       req_target = ThreadMessagesAsc threadId, req_headers = headers,
                       req_body = None\<rparr> w1 of
         (Inl e, w2) \<Rightarrow> (Inl e, w2)
       | (Inr response, w2) \<Rightarrow>
          (if \<not> ok response then
             (Inl (failure ''Failed to fetch messages'' response), w2)
           else
            (case resp_json response of Inl e \<Rightarrow> (Inl e, w2) | Inr payload \<Rightarrow>
              mapMessages env (payload_data payload) w2))))"

record turn =
  res_threadId :: jsval
  res_messages :: "FoundryMessage list"
  res_run :: jsval

definition sendMessage ::
  "env \<Rightarrow> azure_config \<Rightarrow> string \<Rightarrow> string option \<Rightarrow> world \<Rightarrow> (error + turn) \<times> world" where
  "sendMessage env config content threadId w =
     (case ensureThread env config threadId w of
        (Inl e, w1) \<Rightarrow> (Inl e, w1)
      | (Inr resolvedThreadId, w1) \<Rightarrow>
     (case appendUserMessage env config resolvedThreadId content w1 of
        (Inl e, w2) \<Rightarrow> (Inl e, w2)
      | (Inr _, w2) \<Rightarrow>
     (case startRun env config resolvedThreadId w2 of
        (Inl e, w3) \<Rightarrow> (Inl e, w3)
      | (Inr run, w3) \<Rightarrow>
     (case get_prop run ''id'' of
        Inl e \<Rightarrow> (Inl e, w3)
      | Inr runId \<Rightarrow>
     (case pollRun env config resolvedThreadId runId None w3 of
        (Inl e, w4) \<Rightarrow> (Inl e, w4)
      | (Inr finalRun, w4) \<Rightarrow>
     (case listMessages env config resolvedThreadId w4 of
        (Inl e, w5) \<Rightarrow> (Inl e, w5)
      | (Inr messages, w5) \<Rightarrow>
         (Inr \<lparr>res_threadId = resolvedThreadId, res_messages = messages, res_run = finalRun\<rparr>,
          w5)))))))"

section \<open>The relay endpoint\<close>

text \<open>
  \<open>String.prototype.trim\<close> strips white space and line terminators from both ends; these
  are the ones among the code units below 256.
\<close>

definition is_space :: "char \<Rightarrow> bool" where
  "is_space c = (c \<in> set [CHR 0x09, CHR 0x0A, CHR 0x0B, CHR 0x0C, CHR 0x0D, CHR 0x20, CHR 0xA0])"

definition trim :: "string \<Rightarrow> string" where
  "trim s = rev (dropWhile is_space (rev (dropWhile is_space s)))"

text \<open>
  The schema library reports an issue by its code; \<open>TooSmall\<close> carries the message the
  schema gave for it, if any.  \<open>flatten()\<close> sorts the issues into those of the whole payload
  and those of each field.
\<close>

datatype issue = InvalidType | TooSmall "string option"

record flattened =
  formErrors :: "issue list"
  fieldErrors :: "(string \<times> issue list) list"

text \<open>\<open>z.string().trim().min(1, msg)\<close>: a string, trimmed, then at least one code unit long.\<close>

fun z_string_trim_min1 :: "string option \<Rightarrow> jsval \<Rightarrow> issue + string" where
  "z_string_trim_min1 msg (JStr s) =
     (if length (trim s) < 1 then Inl (TooSmall msg) else Inr (trim s))"
| "z_string_trim_min1 msg _ = Inl InvalidType"

text \<open>\<open>schema.optional()\<close>: \<open>undefined\<close> passes as it is.\<close>

fun z_optional :: "(jsval \<Rightarrow> issue + 'a) \<Rightarrow> jsval \<Rightarrow> issue + 'a option" where
  "z_optional schema JUndefined = Inr None"
| "z_optional schema v = (case schema v of Inl i \<Rightarrow> Inl i | Inr x \<Rightarrow> Inr (Some x))"

record chat_payload =
  payload_message :: string
  payload_threadId :: "string option"

text \<open>
  \<open>chatPayloadSchema.safeParse(body)\<close>, with the error already flattened: the payload must be
  an object; each field of the schema is parsed from the property of that name and every
  field's issue is reported.
\<close>

definition chatPayloadSchema :: "jsval \<Rightarrow> flattened + chat_payload" where
  "chatPayloadSchema body =
     (case body of
        JObj kvs \<Rightarrow>
          (case (z_string_trim_min1 (Some ''Message cannot be empty'') (get_prop_opt body ''message''),
                 z_optional (z_string_trim_min1 None) (get_prop_opt body ''threadId'')) of
             (Inr m, Inr t) \<Rightarrow> Inr \<lparr>payload_message = m, payload_threadId = t\<rparr>
           | (m, t) \<Rightarrow>
               Inl \<lparr>formErrors = [],
                    fieldErrors =
                      (case m of Inl i \<Rightarrow> [(''message'', [i])] | Inr _ \<Rightarrow> []) @
                      (case t of Inl i \<Rightarrow> [(''threadId'', [i])] | Inr _ \<Rightarrow> [])\<rparr>)
      | _ \<Rightarrow> Inl \<lparr>formErrors = [InvalidType], fieldErrors = []\<rparr>)"

datatype reply_body =
    ErrorBody string
  | InvalidPayload string flattened
  | FailedBody string string
  | ChatBody jsval "FoundryMessage list"

record reply =
  reply_status :: nat
  reply_body :: reply_body

text \<open>
  The handler of \<open>POST /api/chat\<close>.  \<open>azure\<close> is \<open>config.azure\<close>, from which the module
  builds \<open>azureClient\<close> once: \<open>None\<close> is the \<open>null\<close> client.
\<close>

definition chat_handler :: "env \<Rightarrow> azure_config option \<Rightarrow> jsval \<Rightarrow> world \<Rightarrow> reply \<times> world" where
  "chat_handler env azure body w =
     (case azure of
        None \<Rightarrow>
          (\<lparr>reply_status = 503,
            reply_body = ErrorBody ''Azure AI Foundry credentials are not configured.''\<rparr>, w)
      | Some config \<Rightarrow>
          (case chatPayloadSchema body of
             Inl details \<Rightarrow>
               (\<lparr>reply_status = 400, reply_body = InvalidPayload ''Invalid payload'' details\<rparr>, w)
           | Inr parsed \<Rightarrow>
               (case sendMessage env config (payload_message parsed) (payload_threadId parsed) w of
                  (Inr result, w1) \<Rightarrow>
                    (\<lparr>reply_status = 200,
                      reply_body = ChatBody (res_threadId result) (res_messages result)\<rparr>, w1)
                | (Inl e, w1) \<Rightarrow>
                    (\<lparr>reply_status = 502,
                      reply_body = FailedBody ''Azure agent request failed'' (error_message e)\<rparr>,
                     w1))))"

section \<open>Reading the log\<close>

text \<open>What an operation added to the log.\<close>

definition emitted :: "world \<Rightarrow> world \<Rightarrow> event list" where
  "emitted w w' = drop (length (trace w)) (trace w')"

fun replies :: "event list \<Rightarrow> fetch_reply list" where
  "replies [] = []"
| "replies (Fetch req reply # es) = reply # replies es"
| "replies (e # es) = replies es"

text \<open>The run is still going: the test of the poll loop, negated.\<close>

definition in_progress :: "jsval \<Rightarrow> bool" where
  "in_progress run =
     (case get_prop run ''status'' of
        Inl e \<Rightarrow> False
      | Inr status \<Rightarrow> truthy status \<and> includes_js [''queued'', ''in_progress''] status)"

text \<open>A reply to a status fetch that sends the loop round again.\<close>

fun pending :: "fetch_reply \<Rightarrow> bool" where
  "pending (FetchRejected m) = False"
| "pending (FetchResponse r) =
     (ok r \<and> (case resp_json r of Inl e \<Rightarrow> False | Inr run \<Rightarrow> in_progress run))"

text \<open>
  The log of a poll loop: fetches of the one request; after each pending reply a sleep of
  800 milliseconds and then the next fetch or the end; any other reply ends the log.
\<close>

fun poll_events :: "request \<Rightarrow> event list \<Rightarrow> bool" where
  "poll_events req [] = True"
| "poll_events req [Fetch r reply] = (r = req \<and> \<not> pending reply)"
| "poll_events req (Fetch r reply # Sleep ms # es) =
     (r = req \<and> pending reply \<and> ms = 800 \<and> poll_events req es)"
| "poll_events req es = False"

text \<open>What a reply that is not pending makes of the poll.\<close>

fun settle :: "fetch_reply \<Rightarrow> error + jsval" where
  "settle (FetchRejected m) = Inl (Rejected m)"
| "settle (FetchResponse r) =
     (if \<not> ok r then
        Inl (failure ''Failed to inspect run'' r)
      else
       (case resp_json r of Inl e \<Rightarrow> Inl e | Inr run \<Rightarrow>
        (case get_prop run ''status'' of Inl e \<Rightarrow> Inl e | Inr status \<Rightarrow> Inr run)))"

fun poll_result :: "event list \<Rightarrow> error + jsval" where
  "poll_result [] = Inl (Error ''Timed out while waiting for the agent response'')"
| "poll_result [Fetch r reply] = settle reply"
| "poll_result (e # es) = poll_result es"

text \<open>The world after the client has done what a log says, step by step.\<close>

fun after :: "env \<Rightarrow> world \<Rightarrow> event list \<Rightarrow> world" where
  "after env w [] = w"
| "after env w (Fetch req reply # es) = after env (snd (fetch env req w)) es"
| "after env w (Sleep ms # es) = after env (sleep env ms w) es"
| "after env w (GetToken reply # es) = after env (snd (authHeaders env w)) es"
| "after env w (RandomUUID u # es) = after env (snd (randomUUID env w)) es"

text \<open>
  The deadline is tested before each fetch and nowhere else.  Where the log of a poll loop
  begins, and where it goes on after a sleep, a fetch follows if less than \<open>limit\<close>
  milliseconds have passed since \<open>start\<close>, and the log ends if not; a fetch with no sleep
  after it ends the log whatever the time.
\<close>

fun deadline_tested :: "env \<Rightarrow> nat \<Rightarrow> nat \<Rightarrow> world \<Rightarrow> event list \<Rightarrow> bool" where
  "deadline_tested env start limit w [] = (limit \<le> clock w - start)"
| "deadline_tested env start limit w [Fetch req reply] = (clock w - start < limit)"
| "deadline_tested env start limit w (Fetch req reply # Sleep ms # es) =
     (clock w - start < limit
      \<and> deadline_tested env start limit (after env w [Fetch req reply, Sleep ms]) es)"
| "deadline_tested env start limit w es = False"

text \<open>The value of the \<open>Authorization\<close> header of a request.\<close>

definition bearer :: "request \<Rightarrow> string option" where
  "bearer req = map_of (req_headers req) ''Authorization''"


text \<open>
  The same, but a fetch that follows a sleep may instead repeat the request, headers
  included, of the fetch before the sleep.
\<close>

fun token_use :: "event list \<Rightarrow> event list \<Rightarrow> bool" where
  "token_use seen [] = True"
| "token_use seen (Fetch req reply # es) =
     ((case seen of
         GetToken (Token t) # _ \<Rightarrow> bearer req = Some (''Bearer '' @ t)
       | Sleep ms # Fetch req' reply' # _ \<Rightarrow> req = req'
       | _ \<Rightarrow> False)
      \<and> token_use (Fetch req reply # seen) es)"
| "token_use seen (e # es) = token_use (e # seen) es"


section \<open>A sample deployment\<close>

text \<open>
  A remote service that creates thread \<open>thread_1\<close> and run \<open>run_1\<close>, reports the run in
  progress during the first second and completed afterwards, and lists two messages, the
  second without id, role and creation time.  Every token names the length of the log at
  its acquisition.
\<close>

definition demo_config :: azure_config where
  "demo_config =
     \<lparr>AZURE_AI_FOUNDRY_ENDPOINT = ''https://foundry.example'',
      AZURE_AI_FOUNDRY_PROJECT = ''demo'',
      AZURE_AI_FOUNDRY_AGENT_ID = ''agent_1'',
      AZURE_TENANT_ID = ''tenant'',
      AZURE_CLIENT_ID = ''client'',
      AZURE_CLIENT_SECRET = ''secret''\<rparr>"

definition json_ok :: "jsval \<Rightarrow> response" where
  "json_ok v = \<lparr>resp_status = 200, resp_text = Inr [], resp_json = Inr v\<rparr>"

definition demo_env :: env where
  "demo_env =
     \<lparr>on_getToken = (\<lambda>w. (5, Token (''tok'' @ show_nat (length (trace w))))),
      on_fetch = (\<lambda>w req. (10, FetchResponse (case req_target req of
          Threads \<Rightarrow> json_ok (JObj [(''id'', JStr ''thread_1'')])
        | ThreadMessages t \<Rightarrow> json_ok (JObj [])
        | ThreadRuns t \<Rightarrow> json_ok (JObj [(''id'', JStr ''run_1''), (''status'', JStr ''queued'')])
        | ThreadRun t r \<Rightarrow>
            json_ok (JObj [(''id'', r),
              (''status'', JStr (if clock w < 1000 then ''in_progress'' else ''completed''))])
        | ThreadMessagesAsc t \<Rightarrow>
            json_ok (JObj [(''data'', JArr
              [JObj [(''id'', JStr ''m1''), (''role'', JStr ''user''), (''content'', JStr ''hi''),
                     (''created_at'', JNum (Fin 1700000000))],
               JObj [(''content'', JArr [JObj [(''text'', JStr ''hello'')]])]])])))),
      on_setTimeout = (\<lambda>w ms. ms + 3),
      on_randomUUID = (\<lambda>w. ''uuid'' @ show_nat (length (trace w))),
      toISOString = (\<lambda>t. ''T'' @ show_nat t)\<rparr>"

definition w0 :: world where
  "w0 = \<lparr>clock = 0, trace = []\<rparr>"







text \<open>The same service, but its runs carry no status.\<close>

definition statusless_env :: env where
  "statusless_env =
     demo_env\<lparr>on_fetch := (\<lambda>w req. (10, FetchResponse (json_ok (JObj [(''id'', JStr ''run_1'')]))))\<rparr>"

section \<open>Content normalisation: results\<close>

lemma chunkText_total: "\<exists>s. chunkText chunk = Inr s"
  by (cases chunk) (auto simp: chunkText_def split: jsval.splits option.splits)

lemma sequence_err_total:
  "(\<And>x. x \<in> set xs \<Longrightarrow> \<exists>s. f x = Inr s) \<Longrightarrow> \<exists>ss. sequence_err (map f xs) = Inr ss"
  by (induction xs) fastforce+

lemma normaliseContent_returns: "\<exists>s. normaliseContent raw = Inr s"
proof (induction raw rule: normaliseContent.induct)
  case (1 raw)
  show ?case
  proof (cases raw)
    case (JArr chunks)
    from sequence_err_total [of chunks chunkText] chunkText_total
    obtain ss where "sequence_err (map chunkText chunks) = Inr ss" by blast
    with JArr show ?thesis by (simp add: normaliseContent.simps)
  next
    case (JObj kvs)
    show ?thesis
    proof (cases "map_of kvs ''text''")
      case None
      with JObj show ?thesis by (simp add: normaliseContent.simps)
    next
      case (Some t)
      show ?thesis
      proof (cases t)
        case (JArr items)
        have "\<And>x. x \<in> set items \<Longrightarrow> \<exists>s. normaliseContent x = Inr s"
          using "1.IH" JObj Some JArr by auto
        from sequence_err_total [of items normaliseContent, OF this]
        obtain ss where "sequence_err (map normaliseContent items) = Inr ss" by blast
        with JObj Some JArr show ?thesis by (simp add: normaliseContent.simps)
      qed (use JObj Some in \<open>simp_all add: normaliseContent.simps\<close>)
    qed
  qed (simp_all add: normaliseContent.simps split: jsnum.splits)
qed

text \<open>
  C1.  The four test vectors of content normalisation: a string is returned as it is;
  \<open>null\<close> gives the empty string; the chunks \<open>{text:"a"}\<close>, \<open>{content:"b"}\<close>,
  \<open>{value:"c"}\<close>, \<open>{}\<close> give \<open>a\<close>, \<open>b\<close>, \<open>c\<close> joined by newlines, the chunk without a
  recognised field contributing nothing; and \<open>{text:["x","y"]}\<close> gives \<open>x\<close> and \<open>y\<close>
  joined by a newline.
\<close>

theorem normaliseContent_test_vectors:
  "normaliseContent (JStr ''hello'') = Inr ''hello''
   \<and> normaliseContent JNull = Inr ''''
   \<and> normaliseContent (JArr [JObj [(''text'', JStr ''a'')], JObj [(''content'', JStr ''b'')],
                             JObj [(''value'', JStr ''c'')], JObj []])
       = Inr (''a'' @ NL @ ''b'' @ NL @ ''c'')
   \<and> chunkText (JObj []) = Inr ''''
   \<and> normaliseContent (JObj [(''text'', JArr [JStr ''x'', JStr ''y''])]) = Inr (''x'' @ NL @ ''y'')"
  by (simp add: normaliseContent.simps chunkText_def)

text \<open>
  C2.  For a value of any shape, content normalisation returns a string: no path through
  it throws.  Being a function of its argument alone, it gives equal results on equal
  inputs.
\<close>

theorem normaliseContent_total: "\<exists>s. normaliseContent raw = Inr s"
  by (rule normaliseContent_returns)

lemma sequence_err_map_projr:
  "(\<And>x. x \<in> set xs \<Longrightarrow> \<exists>s. f x = Inr s) \<Longrightarrow>
     sequence_err (map f xs) = Inr (map (\<lambda>x. projr (f x)) xs)"
  by (induction xs) fastforce+

text \<open>
  What the object branch computes when \<open>text\<close> is an array: the normalised elements, every
  one of them, joined by newlines.
\<close>

lemma normaliseContent_text_array:
  assumes "map_of kvs ''text'' = Some (JArr items)"
  shows "normaliseContent (JObj kvs) =
           Inr (join NL (map (\<lambda>item. projr (normaliseContent item)) items))"
proof -
  have "sequence_err (map normaliseContent items)
          = Inr (map (\<lambda>item. projr (normaliseContent item)) items)"
    by (rule sequence_err_map_projr) (rule normaliseContent_returns)
  with assms show ?thesis by (simp add: normaliseContent.simps)
qed

text \<open>
  C5.  On an object whose \<open>text\<close> is an array the source joins the normalised elements
  with newlines and keeps the empty ones, where the array branch drops them: for
  \<open>{text:["x", null, "y"]}\<close> the result has two newlines between \<open>x\<close> and \<open>y\<close>, and the
  same three elements as a top-level array give one.
\<close>

theorem normaliseContent_text_array_keeps_empty:
  "normaliseContent (JObj [(''text'', JArr [JStr ''x'', JNull, JStr ''y''])])
     = Inr (''x'' @ NL @ NL @ ''y'')
   \<and> normaliseContent (JArr [JStr ''x'', JNull, JStr ''y'']) = Inr (''x'' @ NL @ ''y'')"
  by (simp add: normaliseContent.simps chunkText_def)

section \<open>The relay endpoint: results\<close>

text \<open>
  C8.  Without a credential group the handler answers 503 whatever the payload, and the
  world is left as it was: no token is acquired and nothing is fetched.
\<close>

theorem chat_unconfigured_503:
  "chat_handler env None body w =
     (\<lparr>reply_status = 503,
       reply_body = ErrorBody ''Azure AI Foundry credentials are not configured.''\<rparr>, w)"
  by (simp add: chat_handler_def)

text \<open>
  C7, as claimed, fails: without credentials a payload with a blank message gets 503, not
  400.
\<close>

theorem chat_unconfigured_blank_503:
  "trim ''   '' = ''''
   \<and> reply_status (fst (chat_handler demo_env None (JObj [(''message'', JStr ''   '')]) w0)) = 503
   \<and> reply_status (fst (chat_handler demo_env None (JObj [(''message'', JStr ''   '')]) w0)) \<noteq> 400"
  by (simp add: chat_handler_def trim_def is_space_def)

text \<open>
  C7, amended.  With credentials configured, a payload whose message is empty or only
  white space after trimming gets 400 with the validation details, the message field among
  them, and nothing is asked of the remote service; without credentials it gets 503.
\<close>

theorem chat_blank_message:
  assumes "get_prop_opt body ''message'' = JStr m" and "trim m = ''''"
  shows "\<exists>details.
           chat_handler env (Some config) body w =
             (\<lparr>reply_status = 400, reply_body = InvalidPayload ''Invalid payload'' details\<rparr>, w)
           \<and> map_of (fieldErrors details) ''message'' = Some [TooSmall (Some ''Message cannot be empty'')]
           \<and> reply_status (fst (chat_handler env None body w)) = 503"
proof -
  from assms(1) obtain kvs where body: "body = JObj kvs"
    by (cases body) auto
  show ?thesis
    using assms by (auto simp: body chat_handler_def chatPayloadSchema_def split: sum.splits prod.splits)
qed

theorem chat_blank_message_witness:
  "get_prop_opt (JObj [(''message'', JStr ''   '')]) ''message'' = JStr ''   '' \<and> trim ''   '' = ''''
   \<and> reply_status (fst (chat_handler demo_env (Some demo_config) (JObj [(''message'', JStr ''   '')]) w0)) = 400
   \<and> snd (chat_handler demo_env (Some demo_config) (JObj [(''message'', JStr ''   '')]) w0) = w0"
proof -
  have h1: "get_prop_opt (JObj [(''message'', JStr ''   '')]) ''message'' = JStr ''   ''" by simp
  have h2: "trim ''   '' = ''''" by (simp add: trim_def is_space_def)
  from chat_blank_message [OF h1 h2, of demo_env demo_config w0] h1 h2
  show ?thesis by auto
qed


section \<open>Mapping a message: results\<close>

lemma get_prop_not_nullish: "\<not> nullish v \<Longrightarrow> get_prop v k = Inr (get_prop_opt v k)"
  by (cases v) simp_all

lemma clock_happens [simp]: "clock (happens dt e w) = clock w + dt"
  by (simp add: happens_def)

lemma trace_happens [simp]: "trace (happens dt e w) = trace w @ [e]"
  by (simp add: happens_def)

lemma emitted_happens [simp]: "emitted w (happens dt e w) = [e]"
  by (simp add: emitted_def happens_def)

lemma emitted_same [simp]: "emitted w w = []"
  by (simp add: emitted_def)

text \<open>
  C9.  A message that is neither \<open>null\<close> nor \<open>undefined\<close> is always mapped, and the mapped
  message has an id, a role and a creation time that are neither \<open>null\<close> nor \<open>undefined\<close>
  and the normalised content.  An id that is missing or \<open>null\<close> is replaced by a UUID drawn
  from the random source (the only thing the mapping asks of the world), such a role by
  \<open>assistant\<close>, such a creation time by the current time as an ISO string.  So a message
  without id is mapped to different messages by random sources that draw different UUIDs.
\<close>

theorem mapMessage_defaults:
  assumes "\<not> nullish message"
  shows "\<exists>m w'. mapMessage env message w = (Inr m, w')
     \<and> \<not> nullish (msg_id m) \<and> \<not> nullish (msg_role m) \<and> \<not> nullish (msg_createdAt m)
     \<and> normaliseContent (get_prop_opt message ''content'') = Inr (msg_content m)
     \<and> (if nullish (get_prop_opt message ''id'')
        then msg_id m = JStr (on_randomUUID env w)
             \<and> emitted w w' = [RandomUUID (on_randomUUID env w)]
             \<and> (\<forall>env'. on_randomUUID env' w \<noteq> on_randomUUID env w \<longrightarrow>
                    fst (mapMessage env' message w) \<noteq> fst (mapMessage env message w))
        else msg_id m = get_prop_opt message ''id'' \<and> w' = w)
     \<and> msg_role m = (if nullish (get_prop_opt message ''role'') then JStr ''assistant''
                      else get_prop_opt message ''role'')
     \<and> msg_createdAt m = (if nullish (get_prop_opt message ''created_at'')
                           then JStr (toISOString env (clock w))
                           else get_prop_opt message ''created_at'')"
proof -
  obtain content where c: "normaliseContent (get_prop_opt message ''content'') = Inr content"
    using normaliseContent_returns by blast
  note g = get_prop_not_nullish [OF assms]
  show ?thesis
  proof (cases "nullish (get_prop_opt message ''id'')")
    case True
    have "msg_id (projr (fst (mapMessage env' message w))) = JStr (on_randomUUID env' w)" for env'
      using True c by (simp add: mapMessage_def g randomUUID_def)
    then have "on_randomUUID env' w \<noteq> on_randomUUID env w \<Longrightarrow>
        fst (mapMessage env' message w) \<noteq> fst (mapMessage env message w)" for env'
      by (metis jsval.inject(3))
    then show ?thesis
      using True c by (simp add: mapMessage_def g randomUUID_def)
  next
    case False
    then show ?thesis
      using c by (simp add: mapMessage_def g)
  qed
qed

theorem mapMessage_defaults_witness:
  "\<not> nullish (JObj [(''content'', JStr ''hello'')])
   \<and> fst (mapMessage demo_env (JObj [(''content'', JStr ''hello'')]) w0)
       = Inr \<lparr>msg_id = JStr ''uuid0'', msg_role = JStr ''assistant'', msg_content = ''hello'',
               msg_createdAt = JStr ''T0''\<rparr>"
proof -
  have h: "\<not> nullish (JObj [(''content'', JStr ''hello'')])" by simp
  from mapMessage_defaults [OF h, of demo_env w0]
  obtain m w' where r: "mapMessage demo_env (JObj [(''content'', JStr ''hello'')]) w0 = (Inr m, w')"
    and i: "msg_id m = JStr (on_randomUUID demo_env w0)"
    and ro: "msg_role m = JStr ''assistant''"
    and c: "normaliseContent (JStr ''hello'') = Inr (msg_content m)"
    and t: "msg_createdAt m = JStr (toISOString demo_env (clock w0))"
    by auto
  from c have "msg_content m = ''hello''" by (simp add: normaliseContent.simps)
  with i ro t have "m = \<lparr>msg_id = JStr ''uuid0'', msg_role = JStr ''assistant'', msg_content = ''hello'',
               msg_createdAt = JStr ''T0''\<rparr>"
    by (cases m) (simp add: demo_env_def w0_def show_nat.simps digit_def)
  with r h show ?thesis by simp
qed

section \<open>The poll loop: results\<close>

lemma pending_response:
  "pending reply \<Longrightarrow>
     \<exists>r run status. reply = FetchResponse r \<and> ok r \<and> resp_json r = Inr run
        \<and> get_prop run ''status'' = Inr status \<and> truthy status
        \<and> includes_js [''queued'', ''in_progress''] status"
  by (cases reply) (auto simp: in_progress_def split: sum.splits)

lemma pollLoop_timed_out:
  "\<not> clock w - start < limit \<Longrightarrow>
     pollLoop env start limit req w =
       (Inl (Error ''Timed out while waiting for the agent response''), w)"
  by (simp add: pollLoop.simps)

lemma pollLoop_settled:
  "clock w - start < limit \<Longrightarrow> on_fetch env w req = (dt, reply) \<Longrightarrow> \<not> pending reply \<Longrightarrow>
     pollLoop env start limit req w = (settle reply, happens dt (Fetch req reply) w)"
  by (cases reply)
     (auto simp: pollLoop.simps [of env start limit req w] fetch_def in_progress_def
           split: sum.splits)

lemma pollLoop_again:
  "clock w - start < limit \<Longrightarrow> on_fetch env w req = (dt, reply) \<Longrightarrow> pending reply \<Longrightarrow>
     pollLoop env start limit req w =
       pollLoop env start limit req (sleep env 800 (happens dt (Fetch req reply) w))"
  by (cases reply)
     (auto simp: pollLoop.simps [of env start limit req w] fetch_def in_progress_def
           split: sum.splits)

lemma snd_fetch: "on_fetch env w req = (dt, reply) \<Longrightarrow> snd (fetch env req w) = happens dt (Fetch req reply) w"
  by (cases reply) (simp_all add: fetch_def)

lemma pollLoop_log:
  "pollLoop env start limit req w = (res, w') \<Longrightarrow>
     \<exists>evs. trace w' = trace w @ evs \<and> poll_events req evs \<and> res = poll_result evs
       \<and> w' = after env w evs \<and> deadline_tested env start limit w evs
       \<and> clock w \<le> clock w'
       \<and> ((\<forall>reply \<in> set (replies evs). pending reply) \<longrightarrow> limit \<le> clock w' - start)"
proof (induction env start limit req w arbitrary: res w' rule: pollLoop.induct)
  case (1 env start limit req w)
  show ?case
  proof (cases "clock w - start < limit")
    case False
    with "1.prems" have "res = poll_result []" "w' = w"
      by (simp_all add: pollLoop_timed_out)
    with False show ?thesis by simp
  next
    case True
    obtain dt reply where f: "on_fetch env w req = (dt, reply)"
      by (cases "on_fetch env w req")
    let ?w1 = "happens dt (Fetch req reply) w"
    note sf = snd_fetch [OF f]
    show ?thesis
    proof (cases "pending reply")
      case False
      from pollLoop_settled [OF True f False] "1.prems"
      have "res = poll_result [Fetch req reply]" "w' = ?w1" by simp_all
      then have "trace w' = trace w @ [Fetch req reply] \<and> poll_events req [Fetch req reply]
          \<and> res = poll_result [Fetch req reply]
          \<and> w' = after env w [Fetch req reply]
          \<and> deadline_tested env start limit w [Fetch req reply]
          \<and> clock w \<le> clock w'
          \<and> ((\<forall>reply \<in> set (replies [Fetch req reply]). pending reply) \<longrightarrow> limit \<le> clock w' - start)"
        using False True sf by simp
      then show ?thesis by blast
    next
      case pend: True
      let ?w2 = "sleep env 800 ?w1"
      from pending_response [OF pend] obtain r run status where
        r: "reply = FetchResponse r" "ok r" "resp_json r = Inr run"
           "get_prop run ''status'' = Inr status" "truthy status"
           "includes_js [''queued'', ''in_progress''] status"
        by blast
      have fw: "fetch env req w = (Inr r, ?w1)"
        using f r(1) by (simp add: fetch_def)
      from pollLoop_again [OF True f pend] "1.prems"
      have again: "pollLoop env start limit req ?w2 = (res, w')" by simp
      have h1: "\<not> \<not> ok r" using r(2) by simp
      have h2: "\<not> (\<not> truthy status \<or> \<not> includes_js [''queued'', ''in_progress''] status)"
        using r(5,6) by simp
      from "1.IH" [OF True fw [symmetric] refl h1 r(3) r(4) h2 again]
      obtain evs where evs: "trace w' = trace ?w2 @ evs" "poll_events req evs"
          "res = poll_result evs" "w' = after env ?w2 evs"
          "deadline_tested env start limit ?w2 evs" "clock ?w2 \<le> clock w'"
          "(\<forall>reply \<in> set (replies evs). pending reply) \<longrightarrow> limit \<le> clock w' - start"
        by blast
      have c2: "clock w \<le> clock ?w2"
        by (simp add: sleep_def happens_def)
      let ?evs = "Fetch req reply # Sleep 800 # evs"
      have "trace w' = trace w @ ?evs"
        using evs(1) by (simp add: sleep_def happens_def)
      moreover have "poll_events req ?evs"
        using evs(2) pend by simp
      moreover have "res = poll_result ?evs"
        using evs(3) by (cases evs) simp_all
      moreover have "w' = after env w ?evs"
        using evs(4) sf by simp
      moreover have "deadline_tested env start limit w ?evs"
        using evs(5) True sf by simp
      moreover have "clock w \<le> clock w'"
        using evs(6) c2 by simp
      moreover have "(\<forall>reply \<in> set (replies ?evs). pending reply) \<longrightarrow> limit \<le> clock w' - start"
        using evs(7) by simp
      ultimately show ?thesis by blast
    qed
  qed
qed



lemma poll_events_settled:
  "poll_events req evs \<Longrightarrow> reply \<in> set (replies evs) \<Longrightarrow> \<not> pending reply \<Longrightarrow>
     \<exists>es. evs = es @ [Fetch req reply] \<and> (\<forall>x \<in> set (replies es). pending x)
        \<and> poll_result evs = settle reply"
proof (induction req evs rule: poll_events.induct)
  case (3 req r x ms es)
  then have "reply \<in> set (replies es)" by auto
  with 3 obtain es' where es': "es = es' @ [Fetch req reply]" "\<forall>x \<in> set (replies es'). pending x"
      "poll_result es = settle reply"
    by auto
  let ?es = "Fetch r x # Sleep ms # es'"
  have "Fetch r x # Sleep ms # es = ?es @ [Fetch req reply]" using es'(1) by simp
  moreover have "\<forall>y \<in> set (replies ?es). pending y" using es'(2) 3 by simp
  moreover have "poll_result (Fetch r x # Sleep ms # es) = settle reply"
    using es'(3) by (cases es) simp_all
  ultimately show ?case by blast
qed auto



lemma settle_terminal:
  "ok r \<Longrightarrow> resp_json r = Inr run \<Longrightarrow> get_prop run ''status'' = Inr status \<Longrightarrow>
     settle (FetchResponse r) = Inr run"
  by simp


lemma pollRun_log:
  assumes "authHeaders env w = (Inr headers, w1)"
      and "pollRun env config threadId runId timeoutMs w = (res, w')"
  shows "\<exists>evs. trace w' = trace w1 @ evs
     \<and> poll_events \<lparr>req_method = GET, req_base = baseUrl config,
                     req_target = ThreadRun threadId runId, req_headers = headers,
                     req_body = None\<rparr> evs
     \<and> res = poll_result evs
     \<and> w' = after env w1 evs
     \<and> deadline_tested env (clock w) (case timeoutMs of None \<Rightarrow> 120000 | Some t \<Rightarrow> t) w1 evs
     \<and> ((\<forall>x \<in> set (replies evs). pending x) \<longrightarrow>
          (case timeoutMs of None \<Rightarrow> 120000 | Some t \<Rightarrow> t) \<le> clock w' - clock w)"
proof -
  let ?limit = "case timeoutMs of None \<Rightarrow> 120000 | Some t \<Rightarrow> t"
  let ?req = "\<lparr>req_method = GET, req_base = baseUrl config,
                req_target = ThreadRun threadId runId, req_headers = headers, req_body = None\<rparr>"
  from assms have "pollLoop env (clock w) ?limit ?req w1 = (res, w')"
    by (simp add: pollRun_def)
  from pollLoop_log [OF this] show ?thesis by blast
qed


lemmas demo_eval =
  authHeaders_def fetch_def happens_def sleep_def demo_env_def demo_config_def w0_def json_ok_def
  ok_def baseUrl_def show_nat.simps digit_def

lemma trace_w0 [simp]: "trace w0 = []"
  by (simp add: w0_def)








lemma replies_append [simp]: "replies (xs @ ys) = replies xs @ replies ys"
  by (induction xs rule: replies.induct) simp_all

lemma statusless_pollRun:
  "pollRun statusless_env demo_config (JStr ''thread_1'') (JStr ''run_1'') None w0 =
     (Inr (JObj [(''id'', JStr ''run_1'')]),
      \<lparr>clock = 15,
       trace =
         [GetToken (Token ''tok0''),
          Fetch \<lparr>req_method = GET, req_base = ''https://foundry.example/api/projects/demo'',
                 req_target = ThreadRun (JStr ''thread_1'') (JStr ''run_1''),
                 req_headers = [(''Authorization'', ''Bearer tok0''),
                                (''Content-Type'', ''application/json'')],
                 req_body = None\<rparr>
            (FetchResponse (json_ok (JObj [(''id'', JStr ''run_1'')])))]\<rparr>)"
  by (simp add: pollRun_def pollLoop.simps statusless_env_def demo_eval)

text \<open>
  C10.  When a status fetch of \<open>pollRun\<close> is answered with a run whose \<open>status\<close> is missing,
  \<open>null\<close> or the empty string, \<open>pollRun\<close> returns that run, and that fetch is the last
  thing it does: such a run counts as finished, just as one whose status is a string
  outside \<open>queued\<close> and \<open>in_progress\<close>.
\<close>

theorem pollRun_falsy_status_terminal:
  assumes "pollRun env config threadId runId timeoutMs w = (res, w')"
      and "FetchResponse r \<in> set (replies (emitted w w'))"
      and "ok r" and "resp_json r = Inr run" and "get_prop run ''status'' = Inr status"
      and "status = JUndefined \<or> status = JNull \<or> status = JStr []"
  shows "res = Inr run \<and> (\<exists>req. last (trace w') = Fetch req (FetchResponse r))"
proof -
  obtain a w1 where a: "authHeaders env w = (a, w1)" by (cases "authHeaders env w")
  have w1: "\<exists>reply. trace w1 = trace w @ [GetToken reply]"
    using a by (auto simp: authHeaders_def split: prod.splits token_reply.splits)
  show ?thesis
  proof (cases a)
    case (Inl e)
    with a assms(1) have "w' = w1" by (simp add: pollRun_def)
    with w1 assms(2) show ?thesis by (auto simp: emitted_def)
  next
    case (Inr headers)
    from pollRun_log [OF a [unfolded Inr] assms(1)] obtain evs req where
      evs: "trace w' = trace w1 @ evs" "poll_events req evs" "res = poll_result evs"
      by blast
    from w1 evs(1) assms(2) have mem: "FetchResponse r \<in> set (replies evs)"
      by (auto simp: emitted_def)
    from assms(3-6) have "\<not> pending (FetchResponse r)"
      by (auto simp: in_progress_def)
    from poll_events_settled [OF evs(2) mem this] obtain es where
      "evs = es @ [Fetch req (FetchResponse r)]" "poll_result evs = settle (FetchResponse r)"
      by blast
    with evs(1,3) settle_terminal [OF assms(3-5)] show ?thesis by simp
  qed
qed

theorem pollRun_falsy_status_terminal_witness:
  "fst (pollRun statusless_env demo_config (JStr ''thread_1'') (JStr ''run_1'') None w0)
     = Inr (JObj [(''id'', JStr ''run_1'')])
   \<and> ok (json_ok (JObj [(''id'', JStr ''run_1'')]))
   \<and> get_prop (JObj [(''id'', JStr ''run_1'')]) ''status'' = Inr JUndefined
   \<and> (\<exists>req. last (trace (snd (pollRun statusless_env demo_config (JStr ''thread_1'')
                                  (JStr ''run_1'') None w0)))
              = Fetch req (FetchResponse (json_ok (JObj [(''id'', JStr ''run_1'')]))))"
proof -
  let ?run = "JObj [(''id'', JStr ''run_1'')]"
  have h2: "FetchResponse (json_ok ?run) \<in> set (replies (emitted w0
      (snd (pollRun statusless_env demo_config (JStr ''thread_1'') (JStr ''run_1'') None w0))))"
    by (simp add: statusless_pollRun emitted_def)
  have h3: "ok (json_ok ?run)" by (simp add: ok_def json_ok_def)
  have h4: "resp_json (json_ok ?run) = Inr ?run" by (simp add: json_ok_def)
  have h5: "get_prop ?run ''status'' = Inr JUndefined" by simp
  from pollRun_falsy_status_terminal [OF statusless_pollRun _ h3 h4 h5] h2
  have "\<exists>req. last (trace (snd (pollRun statusless_env demo_config (JStr ''thread_1'')
                                  (JStr ''run_1'') None w0)))
              = Fetch req (FetchResponse (json_ok ?run))"
    by (simp add: statusless_pollRun emitted_def)
  with h3 h5 show ?thesis by (simp add: statusless_pollRun)
qed

section \<open>The log of a turn: results\<close>





lemma token_use_call:
  "bearer req = Some (''Bearer '' @ t) \<Longrightarrow> token_use seen [GetToken (Token t), Fetch req reply]"
  by simp






















end
